theory Spec2Isabelle
  imports Main "HOL-Library.Sublist"
begin

section \<open>Python values, exceptions and the outside world\<close>

text \<open>
  The server (\<^verbatim>\<open>app/server.py\<close>) is a straight-line Python module: it fetches a model
  artifact if it is absent, loads it, registers two request handlers and, when asked to,
  starts the listener. Everything it does beyond computing is made explicit here:
  \<^item> the file system is a map from paths to byte strings together with the set of
    the directories that exist; a file is created only in an existing directory;
  \<^item> the calls that leave the module (the HTTP GET of aiohttp, fastai's
    \<^verbatim>\<open>load_learner\<close> and \<^verbatim>\<open>open_image\<close>, the learner's \<^verbatim>\<open>predict\<close>) are fields of
    an environment record, each returning an exception or a result; so are the faults
    of the operating system on opening, reading and writing a file, and the codec of
    the platform's text encoding;
  \<^item> every GET, every write that reached a file, every read, every load, every print
    and the start of the listener is appended to a log of events, in program order;
  \<^item> a raised exception is the \<open>Inl\<close> branch of a sum;
  \<^item> a Python \<^verbatim>\<open>str\<close> is represented by its UTF-8 bytes, so the body that the
    framework sends for a \<^verbatim>\<open>str\<close> is that representation itself.
  The single awaited task of the event loop runs to completion before the next
  statement of the module, so \<^verbatim>\<open>async\<close>/\<^verbatim>\<open>await\<close> is sequential composition.
\<close>

type_synonym bytes = string

type_synonym path = "string list"

text \<open>
  The objects an exception can carry in \<^verbatim>\<open>e.args\<close>: strings, integers,
  \<^verbatim>\<open>None\<close>, tuples (and lists), and \<open>PObject t\<close> for any other object, of the class
  named \<open>t\<close>, that is neither a container nor iterable (another exception, say).
\<close>

datatype pyval = PStr string | PInt int | PNone | PTuple "pyval list" | PObject string

datatype exc_class =
    RuntimeError
  | RuntimeSubclass string
  | TypeError
  | KeyError
  | AttributeError
  | FileNotFoundError
  | IsADirectoryError
  | PermissionError
  | UnicodeDecodeError
  | OtherError string

datatype exn = Exn (exc_cls: exc_class) (exc_args: "pyval list")

record http_response =
  status :: nat
  body :: bytes

datatype event =
    HttpGet string
  | WriteFile path bytes
  | ReadFile path
  | LoadLearner path string
  | Print exn
  | UvicornRun string nat

record world =
  files :: "path \<rightharpoonup> bytes"
  dirs :: "path set"
  events :: "event list"

text \<open>
  A loaded learner offers \<^verbatim>\<open>predict\<close>, which returns a tuple whose first
  component is the predicted category object; \<open>'r\<close> stands for the rest of the tuple.
\<close>

record ('i, 'c, 'r) learner =
  predict :: "'i \<Rightarrow> 'c \<times> 'r"

text \<open>
  The faults of the operating system: \<open>read_fault p\<close> is the error of opening or
  reading the existing file \<open>p\<close> (permissions, an I/O error); \<open>open_write_fault p\<close>
  is the error of opening \<open>p\<close> for writing in an existing directory (a read-only
  directory), in which case nothing is created; \<open>write_fault p data\<close> is the error of
  writing \<open>data\<close> to the opened file together with the number of bytes that reached
  the file before it (a full disk). \<open>decode_text\<close> is the codec of the platform's
  preferred encoding, which text-mode reads apply.
\<close>

record ('i, 'c, 'r) env =
  http_get :: "string \<Rightarrow> exn + http_response"
  torch_load :: "bytes \<Rightarrow> exn + ('i, 'c, 'r) learner"
  open_image :: "bytes \<Rightarrow> exn + 'i"
  py_str :: "'c \<Rightarrow> string"
  read_fault :: "path \<Rightarrow> exn option"
  open_write_fault :: "path \<Rightarrow> exn option"
  write_fault :: "path \<Rightarrow> bytes \<Rightarrow> (exn \<times> nat) option"
  decode_text :: "bytes \<Rightarrow> exn + string"

text \<open>The module's global configuration (lines 16 to 35 of the source).\<close>

record config =
  export_file_url :: string
  export_file_name :: string
  classes :: "string list"
  path :: path

definition module_config :: "path \<Rightarrow> config" where
  "module_config p =
     \<lparr> export_file_url = ''https://www.dropbox.com/s/v2v5osbpk4m6i4s/driver?dl=0'',
       export_file_name = ''driver'',
       classes =
         [''c0: normal driving'',
          ''c1: texting - right'',
          ''c2: talking on the phone - right'',
          ''c3: texting - left'',
          ''c4: talking on the phone - left'',
          ''c5: operating the radio'',
          ''c6: drinking'',
          ''c7: reaching behind'',
          ''c8: hair and makeup'',
          ''c9: talking to passenger''],
       path = p \<rparr>"

definition log :: "event \<Rightarrow> world \<Rightarrow> world" where
  "log e w = w\<lparr>events := events w @ [e]\<rparr>"

text \<open>\<^verbatim>\<open>Path.exists()\<close> holds of a file and of a directory.\<close>

definition path_exists :: "path \<Rightarrow> world \<Rightarrow> bool" where
  "path_exists p w = (files w p \<noteq> None \<or> p \<in> dirs w)"

text \<open>The effect of a write that reached the file.\<close>

definition write_file :: "path \<Rightarrow> bytes \<Rightarrow> world \<Rightarrow> world" where
  "write_file p data w = log (WriteFile p data) (w\<lparr>files := (files w)(p \<mapsto> data)\<rparr>)"

definition no_such_file :: exn where
  "no_such_file = Exn FileNotFoundError [PInt 2, PStr ''No such file or directory'']"

definition is_a_directory :: exn where
  "is_a_directory = Exn IsADirectoryError [PInt 21, PStr ''Is a directory'']"

text \<open>
  \<^verbatim>\<open>with open(p, 'wb') as f: f.write(data)\<close>. The open raises when \<open>p\<close> is a
  directory, when the directory that is to hold \<open>p\<close> does not exist, or when the
  operating system refuses it; nothing is written then. A write that fails leaves the
  bytes that reached the file.
\<close>

definition open_write ::
  "('i, 'c, 'r) env \<Rightarrow> path \<Rightarrow> bytes \<Rightarrow> world \<Rightarrow> (exn + unit) \<times> world" where
  "open_write env p data w =
     (if p \<in> dirs w then (Inl is_a_directory, w)
      else if butlast p \<notin> dirs w then (Inl no_such_file, w)
      else
        (case open_write_fault env p of
           Some e \<Rightarrow> (Inl e, w)
         | None \<Rightarrow>
             (case write_fault env p data of
                Some (e, n) \<Rightarrow> (Inl e, write_file p (take n data) w)
              | None \<Rightarrow> (Inr (), write_file p data w))))"

text \<open>The write goes through: the conditions under which \<open>open_write\<close> returns.\<close>

definition can_write :: "('i, 'c, 'r) env \<Rightarrow> path \<Rightarrow> bytes \<Rightarrow> world \<Rightarrow> bool" where
  "can_write env p data w =
     (p \<notin> dirs w \<and> butlast p \<in> dirs w
      \<and> open_write_fault env p = None \<and> write_fault env p data = None)"

text \<open>Opening a file and reading all of its bytes (binary mode).\<close>

definition open_read ::
  "('i, 'c, 'r) env \<Rightarrow> path \<Rightarrow> world \<Rightarrow> (exn + bytes) \<times> world" where
  "open_read env p w =
     (case files w p of
        None \<Rightarrow> (Inl (if p \<in> dirs w then is_a_directory else no_such_file),
                 log (ReadFile p) w)
      | Some data \<Rightarrow>
          (case read_fault env p of
             Some e \<Rightarrow> (Inl e, log (ReadFile p) w)
           | None \<Rightarrow> (Inr data, log (ReadFile p) w)))"

text \<open>
  Universal newlines, the default of a text-mode read: \<^verbatim>\<open>CR LF\<close> and a lone
  \<^verbatim>\<open>CR\<close> become \<^verbatim>\<open>LF\<close>.
\<close>

fun universal_newlines :: "string \<Rightarrow> string" where
  "universal_newlines [] = []"
| "universal_newlines [c] = [if c = CHR 0x0D then CHR 0x0A else c]"
| "universal_newlines (c # d # cs) =
     (if c = CHR 0x0D \<and> d = CHR 0x0A then CHR 0x0A # universal_newlines cs
      else if c = CHR 0x0D then CHR 0x0A # universal_newlines (d # cs)
      else c # universal_newlines (d # cs))"

text \<open>
  \<^verbatim>\<open>p.open().read()\<close>: the bytes of the file are decoded with the platform's codec,
  which raises on bytes it cannot decode, and the newlines of the text are translated.
\<close>

definition read_text ::
  "('i, 'c, 'r) env \<Rightarrow> path \<Rightarrow> world \<Rightarrow> (exn + string) \<times> world" where
  "read_text env p w =
     (case open_read env p w of
        (Inl e, w1) \<Rightarrow> (Inl e, w1)
      | (Inr raw, w1) \<Rightarrow>
          (case decode_text env raw of
             Inl e \<Rightarrow> (Inl e, w1)
           | Inr decoded \<Rightarrow> (Inr (universal_newlines decoded), w1)))"

text \<open>The events a step added to the log.\<close>

definition new_events :: "world \<Rightarrow> world \<Rightarrow> event list" where
  "new_events w w' = drop (length (events w)) (events w')"


section \<open>The artifact fetcher\<close>

text \<open>
  \<^verbatim>\<open>download_file(url, dest)\<close>, lines 53 to 64. A failure of \<^verbatim>\<open>session.get\<close> or of
  \<^verbatim>\<open>response.read()\<close> is the \<open>Inl\<close> answer of \<open>http_get\<close>; the status of the
  response is a field the function never reads. The write comes after the GET and can
  fail in its turn.
\<close>

definition download_file ::
  "('i, 'c, 'r) env \<Rightarrow> string \<Rightarrow> path \<Rightarrow> world \<Rightarrow> (exn + unit) \<times> world" where
  "download_file env url dest w =
     (if path_exists dest w then (Inr (), w)
      else
        (case http_get env url of
           Inl e \<Rightarrow> (Inl e, log (HttpGet url) w)
         | Inr response \<Rightarrow>
             (let data = body response
              in open_write env dest data (log (HttpGet url) w))))"

section \<open>The model loader\<close>

text \<open>
  fastai's \<^verbatim>\<open>load_learner(path, file)\<close> opens \<^verbatim>\<open>path/file\<close>, reads its bytes and
  deserialises them; what deserialising yields is the environment's \<open>torch_load\<close>.
\<close>

definition load_learner ::
  "('i, 'c, 'r) env \<Rightarrow> path \<Rightarrow> string \<Rightarrow> world \<Rightarrow> (exn + ('i, 'c, 'r) learner) \<times> world" where
  "load_learner env p file w =
     (case files w (p @ [file]) of
        None \<Rightarrow> (Inl (if p @ [file] \<in> dirs w then is_a_directory else no_such_file),
                 log (LoadLearner p file) w)
      | Some data \<Rightarrow>
          (case read_fault env (p @ [file]) of
             Some e \<Rightarrow> (Inl e, log (LoadLearner p file) w)
           | None \<Rightarrow> (torch_load env data, log (LoadLearner p file) w)))"

text \<open>
  The test \<^verbatim>\<open>'CPU-only machine' in e.args[0]\<close>: a substring test on a \<^verbatim>\<open>str\<close>,
  membership on a tuple or list, and a \<^verbatim>\<open>TypeError\<close> on an object that is not
  iterable.
\<close>

definition not_iterable :: "string \<Rightarrow> exn" where
  "not_iterable tname =
     Exn TypeError [PStr (''argument of type '' @ [CHR 0x27] @ tname @ [CHR 0x27] @ '' is not iterable'')]"

fun py_in :: "string \<Rightarrow> pyval \<Rightarrow> exn + bool" where
  "py_in s (PStr t) = Inr (sublist s t)"
| "py_in s (PTuple xs) = Inr (PStr s \<in> set xs)"
| "py_in s (PInt n) = Inl (not_iterable ''int'')"
| "py_in s PNone = Inl (not_iterable ''NoneType'')"
| "py_in s (PObject tname) = Inl (not_iterable tname)"

text \<open>\<^verbatim>\<open>except RuntimeError\<close> catches the class and its subclasses.\<close>

fun is_RuntimeError :: "exc_class \<Rightarrow> bool" where
  "is_RuntimeError RuntimeError = True"
| "is_RuntimeError (RuntimeSubclass n) = True"
| "is_RuntimeError c = False"

definition message :: string where
  "message =
     [CHR 0x0A, CHR 0x0A]
     @ ''This model was trained with an old version of fastai and will not work in a CPU environment.''
     @ [CHR 0x0A, CHR 0x0A]
     @ ''Please update the fastai library in your training environment and export your model again.''
     @ [CHR 0x0A, CHR 0x0A]
     @ ''See instructions for '' @ [CHR 0x27] @ ''Returning to work'' @ [CHR 0x27]
     @ '' at https://course.fast.ai.''"

text \<open>\<^verbatim>\<open>setup_learner()\<close>, lines 67 to 85.\<close>

definition setup_learner ::
  "('i, 'c, 'r) env \<Rightarrow> config \<Rightarrow> world \<Rightarrow> (exn + ('i, 'c, 'r) learner) \<times> world" where
  "setup_learner env c w =
     (case download_file env (export_file_url c) (path c @ [export_file_name c]) w of
        (Inl e, w1) \<Rightarrow> (Inl e, w1)
      | (Inr u, w1) \<Rightarrow>
          (case load_learner env (path c) (export_file_name c) w1 of
             (Inr learn, w2) \<Rightarrow> (Inr learn, w2)
           | (Inl e, w2) \<Rightarrow>
               (if is_RuntimeError (exc_cls e) then
                  (if length (exc_args e) > 0 then
                     (case py_in ''CPU-only machine'' (exc_args e ! 0) of
                        Inl type_error \<Rightarrow> (Inl type_error, w2)
                      | Inr True \<Rightarrow> (Inl (Exn RuntimeError [PStr message]), log (Print e) w2)
                      | Inr False \<Rightarrow> (Inl e, w2))
                   else (Inl e, w2))
                else (Inl e, w2))))"

section \<open>Process bootstrap\<close>

text \<open>
  The module body, lines 91 to 97 and 123 to 127: the one task is run to completion; an
  exception out of it ends the process before the last \<^verbatim>\<open>if\<close> is reached. Otherwise
  \<^verbatim>\<open>learn\<close> is bound and, when the module is the main program and \<^verbatim>\<open>'serve'\<close> is
  in \<^verbatim>\<open>sys.argv\<close>, uvicorn is started with the application.
\<close>

record ('i, 'c, 'r) globals =
  cfg :: config
  learn :: "('i, 'c, 'r) learner"

datatype ('i, 'c, 'r) outcome =
    Crashed exn
  | Finished
  | Serving "('i, 'c, 'r) globals"

definition run_module ::
  "('i, 'c, 'r) env \<Rightarrow> config \<Rightarrow> string \<Rightarrow> string list \<Rightarrow> world
     \<Rightarrow> ('i, 'c, 'r) outcome \<times> world" where
  "run_module env c dunder_name argv w =
     (case setup_learner env c w of
        (Inl e, w1) \<Rightarrow> (Crashed e, w1)
      | (Inr l, w1) \<Rightarrow>
          (if dunder_name = ''__main__'' then
             (if ''serve'' \<in> set argv
              then (Serving \<lparr> cfg = c, learn = l \<rparr>, log (UvicornRun ''0.0.0.0'' 5000) w1)
              else (Finished, w1))
           else (Finished, w1)))"


fun is_listen :: "event \<Rightarrow> bool" where
  "is_listen (UvicornRun h p) = True"
| "is_listen e = False"


fun is_serving :: "('i, 'c, 'r) outcome \<Rightarrow> bool" where
  "is_serving (Serving g) = True"
| "is_serving out = False"

text \<open>The events of one process start: what running the module adds to the log.\<close>

definition startup_trace ::
  "('i, 'c, 'r) env \<Rightarrow> config \<Rightarrow> string \<Rightarrow> string list \<Rightarrow> world \<Rightarrow> event list" where
  "startup_trace env c n argv w = new_events w (snd (run_module env c n argv w))"

section \<open>The HTTP surface\<close>

datatype form_value = UploadFile bytes | FormString string

record request =
  http_method :: string
  url_path :: string
  form :: "string \<rightharpoonup> form_value"

datatype json = JString string | JObject "(string \<times> json) list"

datatype payload = Text string | Json json

record response =
  status_code :: nat
  media_type :: string
  payload :: payload

definition HTMLResponse :: "string \<Rightarrow> response" where
  "HTMLResponse s = \<lparr> status_code = 200, media_type = ''text/html'', payload = Text s \<rparr>"

definition JSONResponse :: "json \<Rightarrow> response" where
  "JSONResponse j = \<lparr> status_code = 200, media_type = ''application/json'', payload = Json j \<rparr>"

text \<open>\<^verbatim>\<open>homepage(request)\<close>, lines 101 to 104; the file is read in text mode.\<close>

definition homepage ::
  "('i, 'c, 'r) globals \<Rightarrow> ('i, 'c, 'r) env \<Rightarrow> request \<Rightarrow> world \<Rightarrow> (exn + response) \<times> world" where
  "homepage g env request w =
     (let html_file = path (cfg g) @ [''view''] @ [''index.html'']
      in case read_text env html_file w of
           (Inl e, w1) \<Rightarrow> (Inl e, w1)
         | (Inr html, w1) \<Rightarrow> (Inr (HTMLResponse html), w1))"

text \<open>An uploaded file has \<^verbatim>\<open>read\<close>; a plain form field is a \<^verbatim>\<open>str\<close> and has not.\<close>

fun read_upload :: "form_value \<Rightarrow> exn + bytes" where
  "read_upload (UploadFile data) = Inr data"
| "read_upload (FormString s) =
     Inl (Exn AttributeError
           [PStr ([CHR 0x27] @ ''str'' @ [CHR 0x27] @ '' object has no attribute ''
                  @ [CHR 0x27] @ ''read'' @ [CHR 0x27])])"

text \<open>\<^verbatim>\<open>analyze(request)\<close>, lines 109 to 120.\<close>

definition analyze ::
  "('i, 'c, 'r) globals \<Rightarrow> ('i, 'c, 'r) env \<Rightarrow> request \<Rightarrow> world \<Rightarrow> (exn + response) \<times> world" where
  "analyze g env request w =
     (case form request ''file'' of
        None \<Rightarrow> (Inl (Exn KeyError [PStr ''file'']), w)
      | Some upload \<Rightarrow>
          (case read_upload upload of
             Inl e \<Rightarrow> (Inl e, w)
           | Inr img_bytes \<Rightarrow>
               (case open_image env img_bytes of
                  Inl e \<Rightarrow> (Inl e, w)
                | Inr img \<Rightarrow>
                    (let prediction = fst (predict (learn g) img)
                     in (Inr (JSONResponse (JObject [(''result'', JString (py_str env prediction))])),
                         w)))))"

text \<open>
  The framework around the handlers: the two routes of the module, and Starlette's
  answer to an exception that escapes a handler (status 500, a fixed plain text).
  Requests to other paths (the static mount, unknown paths, other methods) are left to
  the framework and are \<open>None\<close> here.
\<close>

definition server_error_response :: response where
  "server_error_response =
     \<lparr> status_code = 500, media_type = ''text/plain'', payload = Text ''Internal Server Error'' \<rparr>"

fun respond :: "(exn + response) \<times> world \<Rightarrow> response option \<times> world" where
  "respond (Inl e, w) = (Some server_error_response, w)"
| "respond (Inr r, w) = (Some r, w)"

definition app ::
  "('i, 'c, 'r) globals \<Rightarrow> ('i, 'c, 'r) env \<Rightarrow> request \<Rightarrow> world \<Rightarrow> response option \<times> world" where
  "app g env request w =
     (if url_path request = ''/'' \<and> http_method request = ''GET''
        then respond (homepage g env request w)
      else if url_path request = ''/analyze'' \<and> http_method request = ''POST''
        then respond (analyze g env request w)
      else (None, w))"

section \<open>Concrete worlds used to exercise the theorems\<close>

text \<open>The directories of the application, no file yet.\<close>

definition app_dirs :: "path set" where
  "app_dirs = {[], [''app''], [''app'', ''view'']}"

definition empty_world :: world where
  "empty_world = \<lparr> files = Map.empty, dirs = app_dirs, events = [] \<rparr>"


text \<open>The ASCII codec: bytes below 128 are themselves, any other byte is an error.\<close>

definition ascii_decode :: "bytes \<Rightarrow> exn + string" where
  "ascii_decode raw =
     (if list_all (\<lambda>c. \<not> digit7 c) raw then Inr raw
      else Inl (Exn UnicodeDecodeError [PStr ''ascii'', PStr ''ordinal not in range(128)'']))"

definition app_dir :: path where
  "app_dir = [''app'']"

definition good_learner :: "(nat, string, unit) learner" where
  "good_learner = \<lparr> predict = (\<lambda>i. (''c6: drinking'', ())) \<rparr>"

definition good_env :: "(nat, string, unit) env" where
  "good_env =
     \<lparr> http_get = (\<lambda>u. Inr \<lparr> status = 200, body = ''MODEL'' \<rparr>),
       torch_load = (\<lambda>b. if b = ''MODEL'' then Inr good_learner
                          else Inl (Exn (OtherError ''UnpicklingError'') [PStr ''invalid load key''])),
       open_image = (\<lambda>b. if b = ''PNG'' then Inr 7
                          else Inl (Exn (OtherError ''OSError'') [PStr ''cannot identify image file''])),
       py_str = (\<lambda>c. c),
       read_fault = (\<lambda>p. None),
       open_write_fault = (\<lambda>p. None),
       write_fault = (\<lambda>p data. None),
       decode_text = ascii_decode \<rparr>"


definition not_found_env :: "(nat, string, unit) env" where
  "not_found_env = good_env\<lparr> http_get := (\<lambda>u. Inr \<lparr> status = 404, body = ''<html>Not Found</html>'' \<rparr>) \<rparr>"

definition good_globals :: "(nat, string, unit) globals" where
  "good_globals = \<lparr> cfg = module_config app_dir, learn = good_learner \<rparr>"

definition upload_request :: request where
  "upload_request =
     \<lparr> http_method = ''POST'', url_path = ''/analyze'', form = [''file'' \<mapsto> UploadFile ''PNG''] \<rparr>"

definition junk_request :: request where
  "junk_request =
     \<lparr> http_method = ''POST'', url_path = ''/analyze'', form = [''file'' \<mapsto> UploadFile ''hello''] \<rparr>"

definition home_request :: request where
  "home_request = \<lparr> http_method = ''GET'', url_path = ''/'', form = Map.empty \<rparr>"

definition site_world :: world where
  "site_world =
     \<lparr> files = [[''app'', ''view'', ''index.html''] \<mapsto> ''<html>hi</html>''],
       dirs = app_dirs, events = [] \<rparr>"

text \<open>The same page with a \<^verbatim>\<open>CR LF\<close> line ending: the bytes \<^verbatim>\<open>a CR LF b\<close>.\<close>

definition crlf_world :: world where
  "crlf_world =
     \<lparr> files = [[''app'', ''view'', ''index.html''] \<mapsto> [CHR ''a'', CHR 0x0D, CHR 0x0A, CHR ''b'']],
       dirs = app_dirs, events = [] \<rparr>"

text \<open>A host whose application directory is read-only, and whose network answers 404.\<close>

definition read_only_env :: "(nat, string, unit) env" where
  "read_only_env =
     not_found_env\<lparr> open_write_fault :=
       (\<lambda>p. Some (Exn PermissionError [PInt 13, PStr ''Permission denied''])) \<rparr>"

definition wrapped_error_env :: "(nat, string, unit) env" where
  "wrapped_error_env = good_env\<lparr> torch_load := (\<lambda>b. Inl (Exn RuntimeError [PObject ''OSError''])) \<rparr>"

definition cpu_only_env :: "(nat, string, unit) env" where
  "cpu_only_env = good_env\<lparr> torch_load :=
     (\<lambda>b. Inl (Exn RuntimeError [PStr ''Attempting to deserialize object on a CUDA device; you are running on a CPU-only machine''])) \<rparr>"

definition started_world :: world where
  "started_world =
     \<lparr> files = [[''app'', ''driver''] \<mapsto> ''MODEL''],
       dirs = app_dirs,
       events = [HttpGet ''https://www.dropbox.com/s/v2v5osbpk4m6i4s/driver?dl=0'',
                 WriteFile [''app'', ''driver''] ''MODEL'',
                 LoadLearner [''app''] ''driver''] \<rparr>"

definition listening_world :: world where
  "listening_world = log (UvicornRun ''0.0.0.0'' 5000) started_world"

definition serve_argv :: "string list" where
  "serve_argv = [''app/server.py'', ''serve'']"

definition plain_argv :: "string list" where
  "plain_argv = [''app/server.py'']"

section \<open>Properties of the fetcher\<close>

lemma events_log: "events (log e w) = events w @ [e]"
  by (simp add: log_def)

lemma files_log: "files (log e w) = files w"
  by (simp add: log_def)

lemma dirs_log: "dirs (log e w) = dirs w"
  by (simp add: log_def)

lemma new_events_append: "events w' = events w @ es \<Longrightarrow> new_events w w' = es"
  by (simp add: new_events_def)

text \<open>The write: it returns exactly when \<open>can_write\<close> holds, and adds at most one event.\<close>

lemma can_write_log: "can_write env p data (log e w) = can_write env p data w"
  by (simp add: can_write_def log_def)

lemma open_write_ok:
  "can_write env p data w \<Longrightarrow> open_write env p data w = (Inr (), write_file p data w)"
  by (simp add: open_write_def can_write_def)


lemma open_write_events:
  "events (snd (open_write env p data w)) = events w
   \<or> (\<exists>b. events (snd (open_write env p data w)) = events w @ [WriteFile p b])"
  by (simp add: open_write_def write_file_def log_def split: option.splits prod.splits)

lemma new_events_download:
  "download_file env url dest w = (r, w1) \<Longrightarrow>
   events w1 = events w @ new_events w w1
   \<and> (new_events w w1 = [] \<or> new_events w w1 = [HttpGet url]
        \<or> (\<exists>b. new_events w w1 = [HttpGet url, WriteFile dest b]))"
proof -
  assume d: "download_file env url dest w = (r, w1)"
  show ?thesis
  proof (cases "path_exists dest w")
    case True
    with d show ?thesis by (simp add: download_file_def new_events_def)
  next
    case False
    show ?thesis
    proof (cases "http_get env url")
      case (Inl e)
      with False d show ?thesis
        by (auto simp add: download_file_def new_events_def log_def)
    next
      case (Inr resp)
      with False d have w1: "w1 = snd (open_write env dest (body resp) (log (HttpGet url) w))"
        by (simp add: download_file_def Let_def)
      from open_write_events [of env dest "body resp" "log (HttpGet url) w"]
      show ?thesis
        unfolding w1 by (auto simp add: new_events_def events_log)
    qed
  qed
qed

lemma fetch_cases:
  obtains (skip) "new_events w (snd (download_file env url dest w)) = []"
  | (fail) "new_events w (snd (download_file env url dest w)) = [HttpGet url]"
  | (fetched) b where "new_events w (snd (download_file env url dest w)) = [HttpGet url, WriteFile dest b]"
  using new_events_download [of env url dest w "fst (download_file env url dest w)"
                                "snd (download_file env url dest w)"]
  by auto



lemma download_file_written:
  assumes "\<not> path_exists dest w" and "http_get env url = Inr resp"
      and "can_write env dest (body resp) w"
  shows "download_file env url dest w
           = (Inr (), write_file dest (body resp) (log (HttpGet url) w))"
  using assms by (simp add: download_file_def Let_def open_write_ok can_write_log)


lemma download_file_directory_at_dest:
  assumes "dest \<in> dirs w"
  shows "download_file env url dest w = (Inr (), w)"
  using assms by (simp add: download_file_def path_exists_def)

lemma download_file_partial_write_persists:
  assumes "\<not> path_exists dest w" and "http_get env url = Inr resp"
      and "butlast dest \<in> dirs w" and "open_write_fault env dest = None"
      and "write_fault env dest (body resp) = Some (e, n)"
  shows "fst (download_file env url dest w) = Inl e"
    and "files (snd (download_file env url dest w)) dest = Some (take n (body resp))"
    and "download_file env2 url2 dest (snd (download_file env url dest w))
           = (Inr (), snd (download_file env url dest w))"
  using assms
  by (simp_all add: download_file_def Let_def open_write_def write_file_def log_def path_exists_def)

text \<open>
  C2. When a file already exists at the destination, \<open>download_file\<close> returns normally,
  issues no network call (the log gains no event, and the answer is the same whatever
  the network would have said) and leaves the destination's contents as they were.
\<close>

theorem download_file_existing_is_noop:
  assumes "files w dest = Some old"
  shows "download_file env url dest w = (Inr (), w)
       \<and> new_events w (snd (download_file env url dest w)) = []
       \<and> files (snd (download_file env url dest w)) dest = Some old
       \<and> download_file env' url dest w = download_file env url dest w"
  using assms by (simp add: download_file_def path_exists_def new_events_def)

theorem download_file_existing_is_noop_witness:
  "files (write_file [''app'', ''driver''] ''OLD'' empty_world) [''app'', ''driver''] = Some ''OLD''
   \<and> download_file not_found_env ''http://x'' [''app'', ''driver'']
        (write_file [''app'', ''driver''] ''OLD'' empty_world)
      = (Inr (), write_file [''app'', ''driver''] ''OLD'' empty_world)"
proof -
  have h: "files (write_file [''app'', ''driver''] ''OLD'' empty_world) [''app'', ''driver''] = Some ''OLD''"
    by (simp add: write_file_def files_log)
  from download_file_existing_is_noop
      [OF h, where env = not_found_env and env' = not_found_env and url = "''http://x''"]
  have "download_file not_found_env ''http://x'' [''app'', ''driver'']
          (write_file [''app'', ''driver''] ''OLD'' empty_world)
        = (Inr (), write_file [''app'', ''driver''] ''OLD'' empty_world)"
    by (rule conjunct1)
  with h show ?thesis by (rule conjI)
qed




text \<open>
  C10, as amended. \<open>download_file\<close> never looks at the status of the response: its
  result is the same for every value of the status field. For every response,
  whatever its status (a 404 with an error page as its body, say), for which the
  write goes through, the body is written to the destination and the function
  returns normally. The file then stays: on any later call, with any network, the
  destination exists, so nothing is fetched again, and a loader that can read the file
  is handed the bytes of that body.
\<close>

theorem download_file_ignores_status:
  fixes env :: "('i, 'c, 'r) env"
  assumes "\<not> path_exists dest w" and "http_get env url = Inr resp"
  shows "(\<forall>s. download_file (env\<lparr>http_get := (http_get env)(url := Inr (resp\<lparr>status := s\<rparr>))\<rparr>) url dest w
               = download_file env url dest w)
       \<and> (can_write env dest (body resp) w \<longrightarrow>
             fst (download_file env url dest w) = Inr ()
           \<and> files (snd (download_file env url dest w)) dest = Some (body resp)
           \<and> (\<forall>(env2 :: ('i, 'c, 'r) env) url2.
                 download_file env2 url2 dest (snd (download_file env url dest w))
                   = (Inr (), snd (download_file env url dest w)))
           \<and> (\<forall>(env2 :: ('i, 'c, 'r) env) p f. p @ [f] = dest \<and> read_fault env2 dest = None \<longrightarrow>
                 fst (load_learner env2 p f (snd (download_file env url dest w)))
                   = torch_load env2 (body resp)))"
proof -
  let ?w' = "write_file dest (body resp) (log (HttpGet url) w)"
  have s: "download_file (env\<lparr>http_get := (http_get env)(url := Inr (resp\<lparr>status := s\<rparr>))\<rparr>) url dest w
             = download_file env url dest w" for s
    using assms by (simp add: download_file_def Let_def open_write_def cong: option.case_cong)
  have rest: "fst (download_file env url dest w) = Inr ()
           \<and> files (snd (download_file env url dest w)) dest = Some (body resp)
           \<and> (\<forall>(env2 :: ('i, 'c, 'r) env) url2.
                 download_file env2 url2 dest (snd (download_file env url dest w))
                   = (Inr (), snd (download_file env url dest w)))
           \<and> (\<forall>(env2 :: ('i, 'c, 'r) env) p f. p @ [f] = dest \<and> read_fault env2 dest = None \<longrightarrow>
                 fst (load_learner env2 p f (snd (download_file env url dest w)))
                   = torch_load env2 (body resp))"
    if c: "can_write env dest (body resp) w"
  proof -
    from download_file_written [OF assms c]
    have d: "download_file env url dest w = (Inr (), ?w')" .
    have f: "files ?w' dest = Some (body resp)"
      by (simp add: write_file_def log_def)
    have later: "download_file env2 url2 dest ?w' = (Inr (), ?w')"
      for env2 :: "('i, 'c, 'r) env" and url2
      using f by (simp add: download_file_def path_exists_def)
    have ld: "fst (load_learner env2 p f' ?w') = torch_load env2 (body resp)"
      if "p @ [f'] = dest \<and> read_fault env2 dest = None"
      for env2 :: "('i, 'c, 'r) env" and p f'
      using f that by (auto simp add: load_learner_def)
    from d f later ld show ?thesis by simp
  qed
  from s rest show ?thesis by blast
qed

theorem download_file_ignores_status_witness:
  "\<not> path_exists [''app'', ''driver''] empty_world
   \<and> http_get not_found_env ''http://x'' = Inr \<lparr> status = 404, body = ''<html>Not Found</html>'' \<rparr>
   \<and> can_write not_found_env [''app'', ''driver''] ''<html>Not Found</html>'' empty_world
   \<and> fst (download_file not_found_env ''http://x'' [''app'', ''driver''] empty_world) = Inr ()
   \<and> files (snd (download_file not_found_env ''http://x'' [''app'', ''driver''] empty_world))
        [''app'', ''driver''] = Some ''<html>Not Found</html>''
   \<and> download_file good_env ''http://x'' [''app'', ''driver'']
        (snd (download_file not_found_env ''http://x'' [''app'', ''driver''] empty_world))
       = (Inr (), snd (download_file not_found_env ''http://x'' [''app'', ''driver''] empty_world))"
proof -
  have h1: "\<not> path_exists [''app'', ''driver''] empty_world"
    by (simp add: path_exists_def empty_world_def app_dirs_def)
  have h2: "http_get not_found_env ''http://x'' = Inr \<lparr> status = 404, body = ''<html>Not Found</html>'' \<rparr>"
    by (simp add: not_found_env_def)
  have h3: "can_write not_found_env [''app'', ''driver''] ''<html>Not Found</html>'' empty_world"
    by (simp add: can_write_def empty_world_def app_dirs_def not_found_env_def good_env_def)
  from download_file_ignores_status [OF h1 h2] h3
  have "fst (download_file not_found_env ''http://x'' [''app'', ''driver''] empty_world) = Inr ()"
    and "files (snd (download_file not_found_env ''http://x'' [''app'', ''driver''] empty_world))
        [''app'', ''driver''] = Some ''<html>Not Found</html>''"
    and "download_file good_env ''http://x'' [''app'', ''driver'']
        (snd (download_file not_found_env ''http://x'' [''app'', ''driver''] empty_world))
       = (Inr (), snd (download_file not_found_env ''http://x'' [''app'', ''driver''] empty_world))"
    by simp_all
  with h1 h2 h3 show ?thesis by simp
qed

text \<open>
  As first stated, C10 promises for every response that the body is written and the
  function returns. With a read-only directory the 404 page is fetched, the open for
  writing is refused, the function raises and nothing is persisted: the next run
  fetches again.
\<close>

theorem download_file_read_only_counterexample:
  "\<not> path_exists [''app'', ''driver''] empty_world
   \<and> http_get read_only_env ''http://x'' = Inr \<lparr> status = 404, body = ''<html>Not Found</html>'' \<rparr>
   \<and> fst (download_file read_only_env ''http://x'' [''app'', ''driver''] empty_world)
       = Inl (Exn PermissionError [PInt 13, PStr ''Permission denied''])
   \<and> files (snd (download_file read_only_env ''http://x'' [''app'', ''driver''] empty_world))
        [''app'', ''driver''] = None
   \<and> \<not> path_exists [''app'', ''driver'']
        (snd (download_file read_only_env ''http://x'' [''app'', ''driver''] empty_world))"
  by (simp add: download_file_def open_write_def path_exists_def empty_world_def app_dirs_def
        read_only_env_def not_found_env_def good_env_def log_def Let_def)

section \<open>Properties of the loader\<close>

lemma load_learner_events:
  "events (snd (load_learner env p f w)) = events w @ [LoadLearner p f]"
  by (simp add: load_learner_def log_def split: option.splits)

lemma events_load:
  "load_learner env p f w1 = (r, w2) \<Longrightarrow> events w2 = events w1 @ [LoadLearner p f]"
  using load_learner_events [of env p f w1] by simp

lemma setup_learner_cases:
  obtains
    (fetch_failed) e w1 where
      "download_file env (export_file_url c) (path c @ [export_file_name c]) w = (Inl e, w1)"
      "setup_learner env c w = (Inl e, w1)"
  | (loaded) w1 l w2 where
      "download_file env (export_file_url c) (path c @ [export_file_name c]) w = (Inr (), w1)"
      "load_learner env (path c) (export_file_name c) w1 = (Inr l, w2)"
      "setup_learner env c w = (Inr l, w2)"
  | (translated) w1 e w2 where
      "download_file env (export_file_url c) (path c @ [export_file_name c]) w = (Inr (), w1)"
      "load_learner env (path c) (export_file_name c) w1 = (Inl e, w2)"
      "setup_learner env c w = (Inl (Exn RuntimeError [PStr message]), log (Print e) w2)"
  | (load_failed) w1 e w2 e' where
      "download_file env (export_file_url c) (path c @ [export_file_name c]) w = (Inr (), w1)"
      "load_learner env (path c) (export_file_name c) w1 = (Inl e, w2)"
      "setup_learner env c w = (Inl e', w2)"
proof (cases "download_file env (export_file_url c) (path c @ [export_file_name c]) w")
  case (Pair r w1)
  show ?thesis
  proof (cases r)
    case (Inl e)
    with Pair show ?thesis by (intro fetch_failed) (simp_all add: setup_learner_def)
  next
    case (Inr u)
    obtain r2 w2 where L: "load_learner env (path c) (export_file_name c) w1 = (r2, w2)"
      by (cases "load_learner env (path c) (export_file_name c) w1")
    show ?thesis
    proof (cases r2)
      case (Inr l)
      with Pair \<open>r = Inr u\<close> L show ?thesis
        by (intro loaded [of w1 l w2]) (simp_all add: setup_learner_def)
    next
      case (Inl e)
      show ?thesis
      proof (cases "is_RuntimeError (exc_cls e) \<and> 0 < length (exc_args e)
                    \<and> py_in ''CPU-only machine'' (exc_args e ! 0) = Inr True")
        case True
        with Pair \<open>r = Inr u\<close> L Inl show ?thesis
          by (intro translated [of w1 e w2]) (simp_all add: setup_learner_def)
      next
        case False
        with Pair \<open>r = Inr u\<close> L Inl
        have "\<exists>e'. setup_learner env c w = (Inl e', w2)"
          by (auto simp add: setup_learner_def split: sum.splits bool.splits)
        with Pair \<open>r = Inr u\<close> L Inl show ?thesis
          by (auto intro: load_failed [of w1 e w2])
      qed
    qed
  qed
qed

text \<open>What the handler around the load does with the error \<open>e\<close> that the load raised.\<close>

lemma setup_learner_translates:
  assumes "download_file env (export_file_url c) (path c @ [export_file_name c]) w = (Inr (), w1)"
      and "load_learner env (path c) (export_file_name c) w1 = (Inl e, w2)"
      and "is_RuntimeError (exc_cls e)" and "exc_args e = a # rest"
      and "py_in ''CPU-only machine'' a = Inr True"
  shows "setup_learner env c w = (Inl (Exn RuntimeError [PStr message]), log (Print e) w2)"
  using assms by (simp add: setup_learner_def)

lemma setup_learner_propagates:
  assumes "download_file env (export_file_url c) (path c @ [export_file_name c]) w = (Inr (), w1)"
      and "load_learner env (path c) (export_file_name c) w1 = (Inl e, w2)"
      and "\<not> is_RuntimeError (exc_cls e) \<or> exc_args e = []
           \<or> (\<exists>a rest. exc_args e = a # rest \<and> py_in ''CPU-only machine'' a = Inr False)"
  shows "setup_learner env c w = (Inl e, w2)"
  using assms by (auto simp add: setup_learner_def)

lemma setup_learner_test_raises:
  assumes "download_file env (export_file_url c) (path c @ [export_file_name c]) w = (Inr (), w1)"
      and "load_learner env (path c) (export_file_name c) w1 = (Inl e, w2)"
      and "is_RuntimeError (exc_cls e)" and "exc_args e = a # rest"
      and "py_in ''CPU-only machine'' a = Inl te"
  shows "setup_learner env c w = (Inl te, w2)"
  using assms by (simp add: setup_learner_def)

text \<open>The message torch gives on a host without a GPU is translated.\<close>

lemmas start_defs =
  setup_learner_def download_file_def load_learner_def open_write_def write_file_def log_def
  Let_def path_exists_def module_config_def app_dir_def app_dirs_def empty_world_def good_env_def

lemma cpu_only_setup:
  "fst (setup_learner cpu_only_env (module_config app_dir) empty_world)
     = Inl (Exn RuntimeError [PStr message])"
  by (simp add: start_defs cpu_only_env_def sublist_code)

text \<open>
  C4. The handler around the load is to translate a \<^verbatim>\<open>RuntimeError\<close> that carries
  the CPU-only signature and to let every other load error leave \<open>setup_learner\<close>
  unchanged. The lemmas above show the translation when the signature is there
  (\<open>setup_learner_translates\<close>) and the unchanged error for every error that is not
  a \<^verbatim>\<open>RuntimeError\<close>, that has no argument, or whose first argument is a string or
  a tuple without the signature (\<open>setup_learner_propagates\<close>). The property fails
  for a \<^verbatim>\<open>RuntimeError\<close> whose first argument is not iterable, such as one that
  wraps another exception (\<^verbatim>\<open>raise RuntimeError(err)\<close>): there the test
  \<^verbatim>\<open>'CPU-only machine' in e.args[0]\<close> itself raises, and a \<^verbatim>\<open>TypeError\<close>
  leaves \<open>setup_learner\<close> in place of the error of the load.
\<close>

theorem setup_learner_masks_wrapped_error:
  "fst (load_learner wrapped_error_env app_dir ''driver'' started_world)
     = Inl (Exn RuntimeError [PObject ''OSError''])
   \<and> fst (setup_learner wrapped_error_env (module_config app_dir) empty_world)
     = Inl (Exn TypeError [PStr ''argument of type 'OSError' is not iterable''])"
  by (simp add: start_defs wrapped_error_env_def started_world_def not_iterable_def)

section \<open>Properties of the bootstrap\<close>

lemma good_setup:
  "setup_learner good_env (module_config app_dir) empty_world = (Inr good_learner, started_world)"
  by (simp add: start_defs started_world_def)



lemma setup_trace_shape:
  "\<exists>le. events (snd (setup_learner env c w)) =
          events w
          @ new_events w (snd (download_file env (export_file_url c) (path c @ [export_file_name c]) w))
          @ le
     \<and> (case fst (setup_learner env c w) of
           Inr l \<Rightarrow> le = [LoadLearner (path c) (export_file_name c)]
         | Inl e \<Rightarrow> le = [] \<or> le = [LoadLearner (path c) (export_file_name c)]
                     \<or> (\<exists>e0. le = [LoadLearner (path c) (export_file_name c), Print e0]))
     \<and> (le = [] \<longleftrightarrow>
          (\<exists>e. fst (download_file env (export_file_url c) (path c @ [export_file_name c]) w) = Inl e))"
proof (cases rule: setup_learner_cases [of env c w])
  case (fetch_failed e w1)
  from new_events_download [OF fetch_failed(1)] fetch_failed show ?thesis
    by (intro exI [of _ "[]"]) simp
next
  case (loaded w1 l w2)
  from new_events_download [OF loaded(1)] events_load [OF loaded(2)] loaded show ?thesis
    by (intro exI [of _ "[LoadLearner (path c) (export_file_name c)]"]) simp
next
  case (translated w1 e w2)
  from new_events_download [OF translated(1)] events_load [OF translated(2)] translated show ?thesis
    by (intro exI [of _ "[LoadLearner (path c) (export_file_name c), Print e]"])
       (simp add: log_def)
next
  case (load_failed w1 e w2 e')
  from new_events_download [OF load_failed(1)] events_load [OF load_failed(2)] load_failed show ?thesis
    by (intro exI [of _ "[LoadLearner (path c) (export_file_name c)]"]) simp
qed

lemma run_module_events:
  "events (snd (run_module env c n argv w)) =
     events (snd (setup_learner env c w))
     @ (if is_serving (fst (run_module env c n argv w)) then [UvicornRun ''0.0.0.0'' 5000] else [])"
  by (simp add: run_module_def log_def split: prod.splits sum.splits)

lemma run_module_serving_iff:
  "is_serving (fst (run_module env c n argv w)) \<longleftrightarrow>
     (\<exists>l. fst (setup_learner env c w) = Inr l) \<and> n = ''__main__'' \<and> ''serve'' \<in> set argv"
  by (simp add: run_module_def split: prod.splits sum.splits)

lemma startup_trace_shape:
  obtains le where
    "startup_trace env c n argv w =
       new_events w (snd (download_file env (export_file_url c) (path c @ [export_file_name c]) w))
       @ le
       @ (if is_serving (fst (run_module env c n argv w)) then [UvicornRun ''0.0.0.0'' 5000] else [])"
    "new_events w (snd (setup_learner env c w)) =
       new_events w (snd (download_file env (export_file_url c) (path c @ [export_file_name c]) w)) @ le"
    "le = [] \<or> le = [LoadLearner (path c) (export_file_name c)]
       \<or> (\<exists>e0. le = [LoadLearner (path c) (export_file_name c), Print e0])"
    "le = [] \<longleftrightarrow>
          (\<exists>e. fst (download_file env (export_file_url c) (path c @ [export_file_name c]) w) = Inl e)"
proof -
  from setup_trace_shape [of env c w] obtain le where
    ev: "events (snd (setup_learner env c w)) =
          events w
          @ new_events w (snd (download_file env (export_file_url c) (path c @ [export_file_name c]) w))
          @ le"
    and l: "case fst (setup_learner env c w) of
           Inr l \<Rightarrow> le = [LoadLearner (path c) (export_file_name c)]
         | Inl e \<Rightarrow> le = [] \<or> le = [LoadLearner (path c) (export_file_name c)]
                     \<or> (\<exists>e0. le = [LoadLearner (path c) (export_file_name c), Print e0])"
    and d: "le = [] \<longleftrightarrow>
          (\<exists>e. fst (download_file env (export_file_url c) (path c @ [export_file_name c]) w) = Inl e)"
    by blast
  have "startup_trace env c n argv w =
       new_events w (snd (download_file env (export_file_url c) (path c @ [export_file_name c]) w))
       @ le
       @ (if is_serving (fst (run_module env c n argv w)) then [UvicornRun ''0.0.0.0'' 5000] else [])"
    unfolding startup_trace_def
    by (rule new_events_append) (simp add: run_module_events ev)
  moreover have "new_events w (snd (setup_learner env c w)) =
       new_events w (snd (download_file env (export_file_url c) (path c @ [export_file_name c]) w)) @ le"
    by (rule new_events_append) (simp add: ev)
  moreover from l have "le = [] \<or> le = [LoadLearner (path c) (export_file_name c)]
       \<or> (\<exists>e0. le = [LoadLearner (path c) (export_file_name c), Print e0])"
    by (cases "fst (setup_learner env c w)") auto
  ultimately show ?thesis using d that by blast
qed

lemma startup_trace_split:
  "startup_trace env c n argv w =
     new_events w (snd (setup_learner env c w))
     @ (if is_serving (fst (run_module env c n argv w)) then [UvicornRun ''0.0.0.0'' 5000] else [])"
proof -
  obtain le where
    "startup_trace env c n argv w =
       new_events w (snd (download_file env (export_file_url c) (path c @ [export_file_name c]) w))
       @ le
       @ (if is_serving (fst (run_module env c n argv w)) then [UvicornRun ''0.0.0.0'' 5000] else [])"
    "new_events w (snd (setup_learner env c w)) =
       new_events w (snd (download_file env (export_file_url c) (path c @ [export_file_name c]) w)) @ le"
    by (rule startup_trace_shape)
  then show ?thesis by simp
qed

lemma setup_no_listen:
  "filter is_listen (new_events w (snd (setup_learner env c w))) = []"
proof -
  obtain le where
    t: "new_events w (snd (setup_learner env c w)) =
       new_events w (snd (download_file env (export_file_url c) (path c @ [export_file_name c]) w)) @ le"
    and l: "le = [] \<or> le = [LoadLearner (path c) (export_file_name c)]
       \<or> (\<exists>e0. le = [LoadLearner (path c) (export_file_name c), Print e0])"
    by (rule startup_trace_shape [of env c n argv w])
  from l show ?thesis
    unfolding t
    by (cases rule: fetch_cases [of w env "export_file_url c" "path c @ [export_file_name c]"]) auto
qed






text \<open>
  C6. For the module run as the main program: with \<^verbatim>\<open>serve\<close> among the arguments,
  a setup that returns is followed by the start of the listener, the one event after
  those of the setup; without it, the run consists of the setup alone, the listener is
  never started, and a setup that returns is followed by the end of the process.
\<close>

theorem serve_argument_decides_listening:
  assumes "n = ''__main__''"
  shows "(''serve'' \<in> set argv \<longrightarrow>
            (\<forall>l w1. setup_learner env c w = (Inr l, w1) \<longrightarrow>
               run_module env c n argv w
                 = (Serving \<lparr> cfg = c, learn = l \<rparr>, log (UvicornRun ''0.0.0.0'' 5000) w1)))
       \<and> (''serve'' \<notin> set argv \<longrightarrow>
            \<not> is_serving (fst (run_module env c n argv w))
          \<and> snd (run_module env c n argv w) = snd (setup_learner env c w)
          \<and> filter is_listen (startup_trace env c n argv w) = []
          \<and> (\<forall>l w1. setup_learner env c w = (Inr l, w1) \<longrightarrow>
                run_module env c n argv w = (Finished, w1)))"
proof -
  have a: "run_module env c n argv w
                 = (Serving \<lparr> cfg = c, learn = l \<rparr>, log (UvicornRun ''0.0.0.0'' 5000) w1)"
    if "''serve'' \<in> set argv" "setup_learner env c w = (Inr l, w1)" for l w1
    using that assms by (simp add: run_module_def)
  have b: "\<not> is_serving (fst (run_module env c n argv w))" if "''serve'' \<notin> set argv"
    using that by (simp add: run_module_serving_iff)
  have c: "snd (run_module env c n argv w) = snd (setup_learner env c w)" if "''serve'' \<notin> set argv"
    using that by (simp add: run_module_def split: prod.splits sum.splits)
  have d: "filter is_listen (startup_trace env c n argv w) = []" if "''serve'' \<notin> set argv"
    using b [OF that] by (simp add: startup_trace_split setup_no_listen)
  have e: "run_module env c n argv w = (Finished, w1)"
    if "''serve'' \<notin> set argv" "setup_learner env c w = (Inr l, w1)" for l w1
    using that by (simp add: run_module_def)
  from a b c d e show ?thesis by blast
qed

theorem serve_argument_decides_listening_witness:
  "''serve'' \<in> set serve_argv
   \<and> setup_learner good_env (module_config app_dir) empty_world = (Inr good_learner, started_world)
   \<and> run_module good_env (module_config app_dir) ''__main__'' serve_argv empty_world
       = (Serving \<lparr> cfg = module_config app_dir, learn = good_learner \<rparr>,
          log (UvicornRun ''0.0.0.0'' 5000) started_world)
   \<and> ''serve'' \<notin> set plain_argv
   \<and> run_module good_env (module_config app_dir) ''__main__'' plain_argv empty_world
       = (Finished, started_world)
   \<and> filter is_listen (startup_trace good_env (module_config app_dir) ''__main__'' plain_argv empty_world)
       = []"
proof -
  have m: "''__main__'' = ''__main__''" by simp
  have h1: "''serve'' \<in> set serve_argv" by (simp add: serve_argv_def)
  have h2: "''serve'' \<notin> set plain_argv" by (simp add: plain_argv_def)
  note g = good_setup
  from serve_argument_decides_listening
         [OF m, of serve_argv good_env "module_config app_dir" empty_world] h1 g
  have a: "run_module good_env (module_config app_dir) ''__main__'' serve_argv empty_world
       = (Serving \<lparr> cfg = module_config app_dir, learn = good_learner \<rparr>,
          log (UvicornRun ''0.0.0.0'' 5000) started_world)"
    by blast
  from serve_argument_decides_listening
         [OF m, of plain_argv good_env "module_config app_dir" empty_world] h2 g
  have b: "run_module good_env (module_config app_dir) ''__main__'' plain_argv empty_world
       = (Finished, started_world)
     \<and> filter is_listen (startup_trace good_env (module_config app_dir) ''__main__'' plain_argv empty_world)
       = []"
    by blast
  from h1 h2 g a b show ?thesis by simp
qed

section \<open>Properties of the request handlers\<close>

text \<open>
  C1. For a POST request to \<^verbatim>\<open>/analyze\<close> whose form field \<^verbatim>\<open>file\<close> is an upload
  with bytes that decode to an image, the handler returns, and the application
  answers with, status 200 and the JSON object with the single field \<^verbatim>\<open>result\<close>
  whose value is the string form of the first component of the learner's prediction
  for that image.
\<close>

theorem analyze_valid_image:
  assumes "http_method request = ''POST''" and "url_path request = ''/analyze''"
      and "form request ''file'' = Some (UploadFile img_bytes)"
      and "open_image env img_bytes = Inr img"
  shows "analyze g env request w =
           (Inr \<lparr> status_code = 200, media_type = ''application/json'',
                  payload = Json (JObject [(''result'',
                              JString (py_str env (fst (predict (learn g) img))))]) \<rparr>, w)
       \<and> app g env request w =
           (Some \<lparr> status_code = 200, media_type = ''application/json'',
                  payload = Json (JObject [(''result'',
                              JString (py_str env (fst (predict (learn g) img))))]) \<rparr>, w)"
  using assms by (simp add: app_def analyze_def JSONResponse_def)

theorem analyze_valid_image_witness:
  "http_method upload_request = ''POST'' \<and> url_path upload_request = ''/analyze''
   \<and> form upload_request ''file'' = Some (UploadFile ''PNG'')
   \<and> open_image good_env ''PNG'' = Inr 7
   \<and> app good_globals good_env upload_request listening_world =
        (Some \<lparr> status_code = 200, media_type = ''application/json'',
                payload = Json (JObject [(''result'', JString ''c6: drinking'')]) \<rparr>,
         listening_world)"
proof -
  have h1: "http_method upload_request = ''POST''" by (simp add: upload_request_def)
  have h2: "url_path upload_request = ''/analyze''" by (simp add: upload_request_def)
  have h3: "form upload_request ''file'' = Some (UploadFile ''PNG'')" by (simp add: upload_request_def)
  have h4: "open_image good_env ''PNG'' = Inr 7" by (simp add: good_env_def)
  have lbl: "py_str good_env (fst (predict (learn good_globals) 7)) = ''c6: drinking''"
    by (simp add: good_env_def good_globals_def good_learner_def)
  from analyze_valid_image [OF h1 h2 h3 h4, of good_globals listening_world]
  have "app good_globals good_env upload_request listening_world =
        (Some \<lparr> status_code = 200, media_type = ''application/json'',
                payload = Json (JObject [(''result'', JString ''c6: drinking'')]) \<rparr>,
         listening_world)"
    unfolding lbl by (rule conjunct2)
  with h1 h2 h3 h4 show ?thesis by simp
qed

text \<open>
  C7. For a POST request to \<^verbatim>\<open>/analyze\<close> whose form field \<^verbatim>\<open>file\<close> is an upload
  with bytes that do not decode to an image, the handler raises the error of the
  decoding step, and the application answers with the server error of the framework,
  whose status is 500 and so is not 200.
\<close>

theorem analyze_invalid_image:
  assumes "http_method request = ''POST''" and "url_path request = ''/analyze''"
      and "form request ''file'' = Some (UploadFile img_bytes)"
      and "open_image env img_bytes = Inl e"
  shows "analyze g env request w = (Inl e, w)
       \<and> app g env request w = (Some server_error_response, w)
       \<and> status_code server_error_response = 500
       \<and> status_code server_error_response \<noteq> 200"
  using assms by (simp add: app_def analyze_def server_error_response_def)

theorem analyze_invalid_image_witness:
  "http_method junk_request = ''POST'' \<and> url_path junk_request = ''/analyze''
   \<and> form junk_request ''file'' = Some (UploadFile ''hello'')
   \<and> open_image good_env ''hello'' = Inl (Exn (OtherError ''OSError'') [PStr ''cannot identify image file''])
   \<and> fst (app good_globals good_env junk_request listening_world)
       = Some \<lparr> status_code = 500, media_type = ''text/plain'', payload = Text ''Internal Server Error'' \<rparr>"
proof -
  have h1: "http_method junk_request = ''POST''" by (simp add: junk_request_def)
  have h2: "url_path junk_request = ''/analyze''" by (simp add: junk_request_def)
  have h3: "form junk_request ''file'' = Some (UploadFile ''hello'')" by (simp add: junk_request_def)
  have h4: "open_image good_env ''hello'' = Inl (Exn (OtherError ''OSError'') [PStr ''cannot identify image file''])"
    by (simp add: good_env_def)
  from analyze_invalid_image [OF h1 h2 h3 h4, of good_globals listening_world]
  have "app good_globals good_env junk_request listening_world = (Some server_error_response, listening_world)"
    by simp
  then have "fst (app good_globals good_env junk_request listening_world)
       = Some \<lparr> status_code = 500, media_type = ''text/plain'', payload = Text ''Internal Server Error'' \<rparr>"
    by (simp add: server_error_response_def)
  with h1 h2 h3 h4 show ?thesis by simp
qed

text \<open>
  The text-mode read of the page: a text without \<^verbatim>\<open>CR\<close> is left as it is; a file
  that is missing or that the codec cannot decode makes the handler raise, and the
  answer is the server error.
\<close>

lemma universal_newlines_no_cr:
  "CHR 0x0D \<notin> set s \<Longrightarrow> universal_newlines s = s"
  by (induction s rule: universal_newlines.induct) auto

lemma read_text_ok:
  assumes "files w p = Some raw" and "read_fault env p = None" and "decode_text env raw = Inr decoded"
  shows "read_text env p w = (Inr (universal_newlines decoded), log (ReadFile p) w)"
  using assms by (simp add: read_text_def open_read_def)

lemma homepage_missing_file:
  assumes "files w (path (cfg g) @ [''view'', ''index.html'']) = None"
  shows "\<exists>e. fst (homepage g env request w) = Inl e"
    and "respond (homepage g env request w)
           = (Some server_error_response, log (ReadFile (path (cfg g) @ [''view'', ''index.html''])) w)"
  using assms by (simp_all add: homepage_def read_text_def open_read_def Let_def)

lemma homepage_undecodable_file:
  assumes "files w (path (cfg g) @ [''view'', ''index.html'']) = Some raw"
      and "read_fault env (path (cfg g) @ [''view'', ''index.html'']) = None"
      and "decode_text env raw = Inl e"
  shows "fst (homepage g env request w) = Inl e"
    and "respond (homepage g env request w)
           = (Some server_error_response, log (ReadFile (path (cfg g) @ [''view'', ''index.html''])) w)"
  using assms by (simp_all add: homepage_def read_text_def open_read_def Let_def)

text \<open>
  C9, as amended. For a GET request to \<^verbatim>\<open>/\<close>, made when the static HTML file exists,
  can be read and is decoded by the platform's codec, the handler reads the file
  during the request (the log gains the read) and answers with status 200 and a body
  equal to the text of the file at that moment as a text-mode read gives it: decoded,
  with \<^verbatim>\<open>CR LF\<close> and \<^verbatim>\<open>CR\<close> turned into \<^verbatim>\<open>LF\<close>. The body is the contents of the
  file verbatim when the decoding leaves them as they are and they hold no
  \<^verbatim>\<open>CR\<close>. Nothing is kept from one request to the next: when the file has changed
  after a first request, the next request answers with the new text.
\<close>

theorem homepage_serves_current_file:
  assumes "http_method request = ''GET''" and "url_path request = ''/''"
      and "files w (path (cfg g) @ [''view'', ''index.html'']) = Some raw"
      and "read_fault env (path (cfg g) @ [''view'', ''index.html'']) = None"
      and "decode_text env raw = Inr decoded"
  shows "homepage g env request w =
           (Inr \<lparr> status_code = 200, media_type = ''text/html'',
                  payload = Text (universal_newlines decoded) \<rparr>,
            log (ReadFile (path (cfg g) @ [''view'', ''index.html''])) w)
       \<and> app g env request w =
           (Some \<lparr> status_code = 200, media_type = ''text/html'',
                   payload = Text (universal_newlines decoded) \<rparr>,
            log (ReadFile (path (cfg g) @ [''view'', ''index.html''])) w)
       \<and> (decoded = raw \<and> CHR 0x0D \<notin> set raw \<longrightarrow>
            fst (homepage g env request w)
              = Inr \<lparr> status_code = 200, media_type = ''text/html'', payload = Text raw \<rparr>)
       \<and> (\<forall>raw' decoded'. decode_text env raw' = Inr decoded' \<longrightarrow>
            fst (homepage g env request
               ((snd (homepage g env request w))
                  \<lparr>files := (files w)(path (cfg g) @ [''view'', ''index.html''] \<mapsto> raw')\<rparr>))
             = Inr \<lparr> status_code = 200, media_type = ''text/html'',
                     payload = Text (universal_newlines decoded') \<rparr>)"
proof -
  let ?p = "path (cfg g) @ [''view'', ''index.html'']"
  have h: "homepage g env request w =
           (Inr \<lparr> status_code = 200, media_type = ''text/html'',
                  payload = Text (universal_newlines decoded) \<rparr>, log (ReadFile ?p) w)"
    using read_text_ok [OF assms(3) assms(4) assms(5)]
    by (simp add: homepage_def HTMLResponse_def)
  have a: "app g env request w =
           (Some \<lparr> status_code = 200, media_type = ''text/html'',
                   payload = Text (universal_newlines decoded) \<rparr>, log (ReadFile ?p) w)"
    using assms(1) assms(2) h by (simp add: app_def)
  have v: "fst (homepage g env request w)
              = Inr \<lparr> status_code = 200, media_type = ''text/html'', payload = Text raw \<rparr>"
    if "decoded = raw \<and> CHR 0x0D \<notin> set raw"
    using that h by (simp add: universal_newlines_no_cr)
  have n: "fst (homepage g env request
               ((snd (homepage g env request w))\<lparr>files := (files w)(?p \<mapsto> raw')\<rparr>))
             = Inr \<lparr> status_code = 200, media_type = ''text/html'',
                     payload = Text (universal_newlines decoded') \<rparr>"
    if d: "decode_text env raw' = Inr decoded'" for raw' decoded'
  proof -
    let ?w2 = "(log (ReadFile ?p) w)\<lparr>files := (files w)(?p \<mapsto> raw')\<rparr>"
    have f: "files ?w2 ?p = Some raw'" by simp
    from read_text_ok [OF f assms(4) d] show ?thesis
      unfolding h by (simp add: homepage_def HTMLResponse_def)
  qed
  from h a v n show ?thesis by blast
qed

theorem homepage_serves_current_file_witness:
  "http_method home_request = ''GET'' \<and> url_path home_request = ''/''
   \<and> files site_world (path (cfg good_globals) @ [''view'', ''index.html'']) = Some ''<html>hi</html>''
   \<and> read_fault good_env (path (cfg good_globals) @ [''view'', ''index.html'']) = None
   \<and> decode_text good_env ''<html>hi</html>'' = Inr ''<html>hi</html>''
   \<and> CHR 0x0D \<notin> set ''<html>hi</html>''
   \<and> fst (app good_globals good_env home_request site_world)
       = Some \<lparr> status_code = 200, media_type = ''text/html'', payload = Text ''<html>hi</html>'' \<rparr>
   \<and> fst (homepage good_globals good_env home_request site_world)
       = Inr \<lparr> status_code = 200, media_type = ''text/html'', payload = Text ''<html>hi</html>'' \<rparr>"
proof -
  have h1: "http_method home_request = ''GET''" by (simp add: home_request_def)
  have h2: "url_path home_request = ''/''" by (simp add: home_request_def)
  have h3: "files site_world (path (cfg good_globals) @ [''view'', ''index.html'']) = Some ''<html>hi</html>''"
    by (simp add: site_world_def good_globals_def module_config_def app_dir_def)
  have h4: "read_fault good_env (path (cfg good_globals) @ [''view'', ''index.html'']) = None"
    by (simp add: good_env_def)
  have h5: "decode_text good_env ''<html>hi</html>'' = Inr ''<html>hi</html>''"
    by (simp add: good_env_def ascii_decode_def)
  have h6: "CHR 0x0D \<notin> set ''<html>hi</html>''" by simp
  note t = homepage_serves_current_file [OF h1 h2 h3 h4 h5]
  from t [THEN conjunct2, THEN conjunct2, THEN conjunct1] h6
  have b: "fst (homepage good_globals good_env home_request site_world)
       = Inr \<lparr> status_code = 200, media_type = ''text/html'', payload = Text ''<html>hi</html>'' \<rparr>"
    by simp
  have e: "universal_newlines ''<html>hi</html>'' = ''<html>hi</html>''"
    by simp
  from t [THEN conjunct2, THEN conjunct1]
  have a: "fst (app good_globals good_env home_request site_world)
       = Some \<lparr> status_code = 200, media_type = ''text/html'', payload = Text ''<html>hi</html>'' \<rparr>"
    unfolding e by simp
  from h1 h2 h3 h4 h5 h6 a b show ?thesis by simp
qed

text \<open>
  As first stated, C9 promises a body equal to the contents of the file verbatim. For
  a file holding \<^verbatim>\<open>a CR LF b\<close> the body is \<^verbatim>\<open>a LF b\<close>.
\<close>

theorem homepage_crlf_counterexample:
  "files crlf_world (path (cfg good_globals) @ [''view'', ''index.html''])
     = Some [CHR ''a'', CHR 0x0D, CHR 0x0A, CHR ''b'']
   \<and> fst (homepage good_globals good_env home_request crlf_world)
     = Inr \<lparr> status_code = 200, media_type = ''text/html'',
             payload = Text [CHR ''a'', CHR 0x0A, CHR ''b''] \<rparr>
   \<and> fst (homepage good_globals good_env home_request crlf_world)
     \<noteq> Inr \<lparr> status_code = 200, media_type = ''text/html'',
             payload = Text [CHR ''a'', CHR 0x0D, CHR 0x0A, CHR ''b''] \<rparr>"
  by (simp add: homepage_def read_text_def open_read_def crlf_world_def good_globals_def
        module_config_def app_dir_def good_env_def ascii_decode_def HTMLResponse_def Let_def)

text \<open>Neither the handler nor the setup reads the list \<^verbatim>\<open>classes\<close>.\<close>

lemma analyze_ignores_classes:
  "analyze (g\<lparr>cfg := (cfg g)\<lparr>classes := cs\<rparr>\<rparr>) env request w = analyze g env request w"
  by (simp add: analyze_def split: option.splits sum.splits)

lemma setup_learner_ignores_classes:
  "setup_learner env (c\<lparr>classes := cs\<rparr>) w = setup_learner env c w"
  by (simp add: setup_learner_def cong: prod.case_cong sum.case_cong)

text \<open>
  C8. The list \<^verbatim>\<open>classes\<close> is never consulted on the way to a prediction: for any
  two values of it, the handler and the application answer a request to
  \<^verbatim>\<open>/analyze\<close> identically, the setup returns the same learner and the same world,
  and the two process starts end alike, their globals differing in that list only.
\<close>

theorem classes_never_consulted:
  "analyze (g\<lparr>cfg := (cfg g)\<lparr>classes := cs1\<rparr>\<rparr>) env request w
     = analyze (g\<lparr>cfg := (cfg g)\<lparr>classes := cs2\<rparr>\<rparr>) env request w
   \<and> app (g\<lparr>cfg := (cfg g)\<lparr>classes := cs1\<rparr>\<rparr>) env (request\<lparr>url_path := ''/analyze''\<rparr>) w
     = app (g\<lparr>cfg := (cfg g)\<lparr>classes := cs2\<rparr>\<rparr>) env (request\<lparr>url_path := ''/analyze''\<rparr>) w
   \<and> setup_learner env (c\<lparr>classes := cs1\<rparr>) w = setup_learner env (c\<lparr>classes := cs2\<rparr>) w
   \<and> run_module env (c\<lparr>classes := cs1\<rparr>) n argv w =
       (case run_module env (c\<lparr>classes := cs2\<rparr>) n argv w of
          (Serving g2, w') \<Rightarrow> (Serving (g2\<lparr>cfg := (cfg g2)\<lparr>classes := cs1\<rparr>\<rparr>), w')
        | other \<Rightarrow> other)"
  by (simp add: analyze_ignores_classes setup_learner_ignores_classes app_def run_module_def
        split: prod.splits sum.splits)

end
